theory Spec2Isabelle
  imports Main "HOL-Library.AList"
begin

section \<open>JavaScript values and plain objects\<close>

text \<open>
  The logger of \<^verbatim>\<open>lib/karl.js\<close> is embedded function by function. The values it
  handles are the primitives of JavaScript and function objects; a function object is
  known by its identity only (a number), what a user supplied callback does is given by the
  host record further down.
\<close>

datatype jsval = JUndefined | JNull | JBool bool | JNum int | JStr string | JFun nat

text \<open>The condition of an \<^verbatim>\<open>if\<close>, of \<^verbatim>\<open>?:\<close> and of \<^verbatim>\<open>||\<close>.\<close>

fun truthy :: "jsval \<Rightarrow> bool" where
  "truthy JUndefined = False"
| "truthy JNull = False"
| "truthy (JBool b) = b"
| "truthy (JNum n) = (n \<noteq> 0)"
| "truthy (JStr s) = (s \<noteq> [])"
| "truthy (JFun f) = True"

text \<open>
  A plain object is the list of its own enumerable properties in insertion order. Writing a
  property that exists keeps its place, writing a new one appends it; reading a property
  that is absent gives \<^verbatim>\<open>undefined\<close>. Properties inherited from
  \<^verbatim>\<open>Object.prototype\<close> are not enumerable and are not in the list; the one the
  logger reads, \<^verbatim>\<open>hasOwnProperty\<close>, is looked up where it is called.
\<close>

type_synonym jsobj = "(string \<times> jsval) list"

definition hasOwnProperty :: "jsobj \<Rightarrow> string \<Rightarrow> bool" where
  "hasOwnProperty obj prop = (map_of obj prop \<noteq> None)"

definition get_prop :: "jsobj \<Rightarrow> string \<Rightarrow> jsval" where
  "get_prop obj prop = (case map_of obj prop of None \<Rightarrow> JUndefined | Some v \<Rightarrow> v)"

definition set_prop :: "jsobj \<Rightarrow> string \<Rightarrow> jsval \<Rightarrow> jsobj" where
  "set_prop obj prop v = AList.update prop v obj"

definition for_in :: "jsobj \<Rightarrow> string list" where
  "for_in obj = map fst obj"

section \<open>Levels, default options, formatter selection\<close>

datatype log_level = TRACE | DEBUG | INFO | WARN | ERROR | FATAL

definition LOG_LEVELS :: "log_level list" where
  "LOG_LEVELS = [TRACE, DEBUG, INFO, WARN, ERROR, FATAL]"

fun level_name :: "log_level \<Rightarrow> string" where
  "level_name TRACE = ''TRACE''"
| "level_name DEBUG = ''DEBUG''"
| "level_name INFO = ''INFO''"
| "level_name WARN = ''WARN''"
| "level_name ERROR = ''ERROR''"
| "level_name FATAL = ''FATAL''"

text \<open>\<^verbatim>\<open>level.toLowerCase()\<close>, the name of the method on \<^verbatim>\<open>karl\<close>.\<close>

fun method_name :: "log_level \<Rightarrow> string" where
  "method_name TRACE = ''trace''"
| "method_name DEBUG = ''debug''"
| "method_name INFO = ''info''"
| "method_name WARN = ''warn''"
| "method_name ERROR = ''error''"
| "method_name FATAL = ''fatal''"

definition defaultLogOptions :: jsobj where
  "defaultLogOptions =
     [(''includeLocationInformation'', JBool True),
      (''colorize'', JBool False),
      (''redirectConsole'', JBool True),
      (''json'', JBool True)]"

datatype formatter = JsonFormatter | TextFormatter

definition getFormatter :: "jsobj \<Rightarrow> formatter" where
  "getFormatter options = (if truthy (get_prop options ''json'') then JsonFormatter else TextFormatter)"

definition defaultFormatter :: formatter where
  "defaultFormatter = getFormatter defaultLogOptions"

section \<open>The console interceptor\<close>

text \<open>
  A console entry point is bound to a value that existed when the module was loaded
  (a function object known by its identity, or nothing), or to a function made by
  \<^verbatim>\<open>karl[level].bind(karl)\<close>. Every call of \<^verbatim>\<open>bind\<close> makes a new function
  object: it carries the number of the allocation. \<^verbatim>\<open>===\<close> on these values is
  equality.
\<close>

datatype binding = Undefined | Ambient nat | KarlBound log_level nat

fun ambient_binding :: "nat option \<Rightarrow> binding" where
  "ambient_binding None = Undefined"
| "ambient_binding (Some f) = Ambient f"

record console_state =
  console :: "string \<Rightarrow> binding"
  defaultConsole :: "string \<Rightarrow> binding"
  next_bound :: nat

text \<open>\<^verbatim>\<open>console[name] = karl[level].bind(karl)\<close>\<close>

definition bind_karl :: "log_level \<Rightarrow> string \<Rightarrow> console_state \<Rightarrow> console_state" where
  "bind_karl l name cs =
     cs\<lparr>console := (console cs)(name := KarlBound l (next_bound cs)),
        next_bound := Suc (next_bound cs)\<rparr>"

text \<open>\<^verbatim>\<open>console[name] = defaultConsole[name]\<close>\<close>

definition restore_binding :: "string \<Rightarrow> console_state \<Rightarrow> console_state" where
  "restore_binding name cs = cs\<lparr>console := (console cs)(name := defaultConsole cs name)\<rparr>"

definition redirectConsole :: "jsval \<Rightarrow> console_state \<Rightarrow> console_state" where
  "redirectConsole enable cs =
     (if truthy enable then
        (if console cs ''log'' = defaultConsole cs ''log'' then
           fold (\<lambda>l. bind_karl l (method_name l)) [TRACE, DEBUG, INFO, WARN, ERROR]
             (bind_karl INFO ''log'' cs)
         else cs)
      else
        (if console cs ''log'' \<noteq> defaultConsole cs ''log'' then
           fold restore_binding [''trace'', ''debug'', ''log'', ''info'', ''warn'', ''error''] cs
         else cs))"

text \<open>
  What the module does to the console when it is loaded: \<^verbatim>\<open>defaultConsole\<close> is
  \<^verbatim>\<open>{ debug: console.log }\<close>, then the five bindings \<^verbatim>\<open>trace, log, info, warn,
  error\<close> are saved, then the console is redirected if the default options say so.
  The argument is the console the module finds.
\<close>

definition save_console :: "(string \<Rightarrow> nat option) \<Rightarrow> console_state" where
  "save_console c0 =
     \<lparr>console = (\<lambda>name. ambient_binding (c0 name)),
      defaultConsole =
        fold (\<lambda>name d. d(name := ambient_binding (c0 name)))
          [''trace'', ''log'', ''info'', ''warn'', ''error'']
          ((\<lambda>name. Undefined)(''debug'' := ambient_binding (c0 ''log''))),
      next_bound = 0\<rparr>"

definition load_console :: "(string \<Rightarrow> nat option) \<Rightarrow> console_state" where
  "load_console c0 =
     (if truthy (get_prop defaultLogOptions ''redirectConsole'')
      then redirectConsole (get_prop defaultLogOptions ''redirectConsole'') (save_console c0)
      else save_console c0)"

section \<open>The call-site resolver\<close>

datatype js_error = AssertionError | TypeError | Thrown string

text \<open>
  What an accessor of a \<^verbatim>\<open>CallSite\<close> gives: \<^verbatim>\<open>undefined\<close>, \<^verbatim>\<open>null\<close> or a
  value. The logger passes a falsy result on as it is, so the two empty results are kept
  apart: they print differently.
\<close>

datatype 'a nullable = JsUndefined | JsNull | JsValue 'a

fun nullable_string :: "string nullable \<Rightarrow> jsval" where
  "nullable_string JsUndefined = JUndefined"
| "nullable_string JsNull = JNull"
| "nullable_string (JsValue s) = JStr s"

fun nullable_number :: "int nullable \<Rightarrow> jsval" where
  "nullable_number JsUndefined = JUndefined"
| "nullable_number JsNull = JNull"
| "nullable_number (JsValue n) = JNum n"

fun has_value :: "'a nullable \<Rightarrow> bool" where
  "has_value (JsValue v) = True"
| "has_value JsNull = False"
| "has_value JsUndefined = False"

text \<open>A \<^verbatim>\<open>CallSite\<close> of V8, by the three accessors the logger calls.\<close>

record callsite =
  getFileName :: "string nullable"
  getLineNumber :: "int nullable"
  getFunctionName :: "string nullable"

definition dummyTrace :: callsite where
  "dummyTrace = \<lparr>getFileName = JsNull, getLineNumber = JsNull, getFunctionName = JsNull\<rparr>"

text \<open>
  The process-wide configuration of stack traces: \<^verbatim>\<open>Error.stackTraceLimit\<close> and
  \<^verbatim>\<open>Error.prepareStackTrace\<close>. The formatter is whatever the process had installed,
  or the closure \<^verbatim>\<open>function(_, stack) { stackInfo = stack[0]; }\<close> of
  \<^verbatim>\<open>getStackInfo\<close>.
\<close>

datatype prepare = AmbientPrepare jsval | CapturePrepare

record error_config =
  stackTraceLimit :: jsval
  prepareStackTrace :: prepare

text \<open>
  What the runtime does at one invocation of the resolver: \<^verbatim>\<open>Error.captureStackTrace\<close>
  throws, or reading \<^verbatim>\<open>obj.stack\<close> throws, or both complete and the frames above the
  boundary function are the given list (innermost first).
\<close>

datatype stack_probe = CaptureThrows js_error | AccessThrows js_error | Frames "callsite list"

text \<open>
  \<^verbatim>\<open>Error.captureStackTrace(obj, limFn)\<close> collects at most
  \<^verbatim>\<open>Error.stackTraceLimit\<close> frames above \<^verbatim>\<open>limFn\<close>, none when the limit is not
  a number.
\<close>

definition captureStackTrace :: "stack_probe \<Rightarrow> error_config \<Rightarrow> js_error + callsite list" where
  "captureStackTrace probe cfg =
     (case probe of
        CaptureThrows e \<Rightarrow> Inl e
      | AccessThrows e \<Rightarrow> Inr []
      | Frames fs \<Rightarrow> (case stackTraceLimit cfg of JNum n \<Rightarrow> Inr (take (nat n) fs) | _ \<Rightarrow> Inr []))"

text \<open>
  Reading \<^verbatim>\<open>obj.stack\<close> formats the captured frames with the formatter installed at
  that moment; the closure of \<^verbatim>\<open>getStackInfo\<close> stores \<^verbatim>\<open>stack[0]\<close> (nothing
  when the list is empty) in \<^verbatim>\<open>stackInfo\<close>, any other formatter leaves it alone.
\<close>

definition read_stack ::
  "stack_probe \<Rightarrow> error_config \<Rightarrow> callsite list \<Rightarrow> callsite option \<Rightarrow> js_error + callsite option" where
  "read_stack probe cfg stack stackInfo =
     (case probe of
        AccessThrows e \<Rightarrow> Inl e
      | _ \<Rightarrow> (case prepareStackTrace cfg of
                CapturePrepare \<Rightarrow> Inr (case stack of [] \<Rightarrow> None | f # _ \<Rightarrow> Some f)
              | AmbientPrepare _ \<Rightarrow> Inr stackInfo))"

text \<open>
  \<^verbatim>\<open>getStackInfo(limFn)\<close>, statement by statement. It returns the configuration it
  leaves behind and either the error that escaped or the value of \<^verbatim>\<open>stackInfo\<close>
  (\<open>None\<close>: \<^verbatim>\<open>null\<close> or \<^verbatim>\<open>undefined\<close>, no frame). There is no
  \<^verbatim>\<open>try\<close> in the function: an error leaves it at the statement that threw.
\<close>

definition getStackInfo ::
  "stack_probe \<Rightarrow> jsval \<Rightarrow> error_config \<Rightarrow> error_config \<times> (js_error + callsite option)" where
  "getStackInfo probe limFn cfg =
     (case limFn of
        JFun _ \<Rightarrow>
          (let saveLimit = stackTraceLimit cfg;
               savePrepare = prepareStackTrace cfg;
               cfg1 = cfg\<lparr>stackTraceLimit := JNum 1\<rparr>
           in case captureStackTrace probe cfg1 of
                Inl e \<Rightarrow> (cfg1, Inl e)
              | Inr stack \<Rightarrow>
                  (let cfg2 = cfg1\<lparr>prepareStackTrace := CapturePrepare\<rparr>
                   in case read_stack probe cfg2 stack None of
                        Inl e \<Rightarrow> (cfg2, Inl e)
                      | Inr stackInfo \<Rightarrow>
                          (cfg2\<lparr>stackTraceLimit := saveLimit, prepareStackTrace := savePrepare\<rparr>,
                           Inr stackInfo)))
      | _ \<Rightarrow> (cfg, Inl AssertionError))"

section \<open>Events and the host\<close>

text \<open>
  The object literal \<^verbatim>\<open>message\<close> of the deferred task; \<^verbatim>\<open>process\<close> is flattened
  into its two fields, \<open>extra\<close> holds what an \<^verbatim>\<open>enrich\<close> callback adds.
\<close>

record event =
  timestamp :: string
  level :: string
  hostName :: string
  process_name :: string
  process_pid :: int
  message :: string
  fileName :: "string nullable"
  filePath :: "string nullable"
  lineNumber :: "int nullable"
  functionName :: string
  extra :: jsobj

text \<open>
  What the logger takes from Node and from the process: the constants fixed when the module
  is loaded (\<^verbatim>\<open>applicationName\<close>, \<^verbatim>\<open>pid\<close>), \<^verbatim>\<open>os.hostname()\<close>,
  \<^verbatim>\<open>Date.prototype.toISOString\<close> on milliseconds, the functions of \<^verbatim>\<open>path\<close>,
  the palette \<^verbatim>\<open>util.inspect.colors\<close>, \<^verbatim>\<open>JSON.stringify\<close> on an event, and
  what the functions the caller supplies do: a function passed as \<^verbatim>\<open>enrich\<close>, called
  with an event, returns (the event as it has changed it) or throws; a function an
  options object carries under the name \<^verbatim>\<open>hasOwnProperty\<close>, called on an object with
  a property name, returns a value or throws. The rest is what \<^verbatim>\<open>util.format\<close> needs
  and differs between Node versions: how a value is inspected or serialised, how a string
  converts to a number, how a function prints, which placeholders there are besides
  \<^verbatim>\<open>%s\<close>, \<^verbatim>\<open>%d\<close>, \<^verbatim>\<open>%j\<close> and \<^verbatim>\<open>%%\<close> (none on Node 4; \<^verbatim>\<open>%i\<close>,
  \<^verbatim>\<open>%f\<close> and others later), and how a number of 22 digits or more prints (in
  exponent form).
\<close>

record host =
  hostname :: string
  applicationName :: string
  pid :: int
  toISOString :: "int \<Rightarrow> string"
  basename :: "string \<Rightarrow> string"
  dirname :: "string \<Rightarrow> string"
  relative :: "string \<Rightarrow> string \<Rightarrow> string"
  cwd :: string
  inspect_colors :: "string \<Rightarrow> int \<times> int"
  JSON_stringify :: "event \<Rightarrow> string"
  call_function :: "nat \<Rightarrow> event \<Rightarrow> js_error + event"
  call_hasOwnProperty :: "nat \<Rightarrow> jsobj \<Rightarrow> string \<Rightarrow> js_error + jsval"
  inspect :: "jsval \<Rightarrow> string"
  json_of :: "jsval \<Rightarrow> string"
  number_of_string :: "string \<Rightarrow> string"
  function_source :: "nat \<Rightarrow> string"
  other_placeholder :: "char \<Rightarrow> (jsval \<Rightarrow> string) option"
  exponent_form :: "int \<Rightarrow> string"

section \<open>util.format\<close>

text \<open>Decimal digits of a number, as string concatenation renders an integer.\<close>

fun show_nat :: "nat \<Rightarrow> string" where
  "show_nat n =
     (if n < 10 then [char_of (48 + n)] else show_nat (n div 10) @ [char_of (48 + n mod 10)])"

definition show_int :: "int \<Rightarrow> string" where
  "show_int i = (if i < 0 then CHR ''-'' # show_nat (nat (- i)) else show_nat (nat i))"

text \<open>
  A number as a string: in decimal below \<^verbatim>\<open>1e21\<close> in absolute value, in the
  exponent form of the host from there on.
\<close>

definition show_number :: "host \<Rightarrow> int \<Rightarrow> string" where
  "show_number h n =
     (if - 1000000000000000000000 < n \<and> n < 1000000000000000000000
      then show_int n else exponent_form h n)"

text \<open>\<^verbatim>\<open>String(v)\<close> and \<^verbatim>\<open>String(Number(v))\<close>.\<close>

fun js_String :: "host \<Rightarrow> jsval \<Rightarrow> string" where
  "js_String h JUndefined = ''undefined''"
| "js_String h JNull = ''null''"
| "js_String h (JBool b) = (if b then ''true'' else ''false'')"
| "js_String h (JNum n) = show_number h n"
| "js_String h (JStr s) = s"
| "js_String h (JFun f) = function_source h f"

fun js_Number :: "host \<Rightarrow> jsval \<Rightarrow> string" where
  "js_Number h JUndefined = ''NaN''"
| "js_Number h JNull = ''0''"
| "js_Number h (JBool b) = (if b then ''1'' else ''0'')"
| "js_Number h (JNum n) = show_number h n"
| "js_Number h (JStr s) = number_of_string h s"
| "js_Number h (JFun f) = ''NaN''"

text \<open>
  \<^verbatim>\<open>util.format\<close> of the Node versions the package names (4.7.1 and later), on
  primitive arguments. The template is scanned for \<^verbatim>\<open>%%\<close> and for the placeholders:
  \<^verbatim>\<open>%s\<close>, \<^verbatim>\<open>%d\<close>, \<^verbatim>\<open>%j\<close> and those the host's version adds. A
  placeholder with no argument left stays as it is; the arguments left over are appended,
  each after a space. With one argument the template is returned as it is; when the first
  argument is not a string every argument is inspected and the results are joined by
  spaces.
\<close>

definition leftover :: "host \<Rightarrow> jsval list \<Rightarrow> string" where
  "leftover h args = concat (map (\<lambda>x. CHR '' '' # js_String h x) args)"

definition placeholder :: "host \<Rightarrow> char \<Rightarrow> (jsval \<Rightarrow> string) option" where
  "placeholder h d =
     (if d = CHR ''s'' then Some (js_String h)
      else if d = CHR ''d'' then Some (js_Number h)
      else if d = CHR ''j'' then Some (json_of h)
      else other_placeholder h d)"

fun format_scan :: "host \<Rightarrow> string \<Rightarrow> jsval list \<Rightarrow> string" where
  "format_scan h [] args = leftover h args"
| "format_scan h [c] args = c # leftover h args"
| "format_scan h (c # d # cs) args =
     (if c = CHR ''%'' then
        (if d = CHR ''%'' then CHR ''%'' # format_scan h cs args
         else (case placeholder h d of
                 None \<Rightarrow> c # format_scan h (d # cs) args
               | Some convert \<Rightarrow>
                   (case args of
                      [] \<Rightarrow> c # d # format_scan h cs []
                    | a # as \<Rightarrow> convert a @ format_scan h cs as)))
      else c # format_scan h (d # cs) args)"

fun join_space :: "string list \<Rightarrow> string" where
  "join_space [] = []"
| "join_space [x] = x"
| "join_space (x # y # ys) = x @ CHR '' '' # join_space (y # ys)"

definition util_format :: "host \<Rightarrow> jsval list \<Rightarrow> string" where
  "util_format h arguments =
     (case arguments of
        JStr f # rest \<Rightarrow> (if rest = [] then f else format_scan h f rest)
      | _ \<Rightarrow> join_space (map (inspect h) arguments))"

section \<open>Formatters and colours\<close>

definition jsonFormatter :: "host \<Rightarrow> event \<Rightarrow> string" where
  "jsonFormatter h msg = JSON_stringify h msg"

text \<open>\<^verbatim>\<open>textFormatter\<close> reads the module's \<^verbatim>\<open>logOptions\<close> when it runs.\<close>

definition textFormatter :: "host \<Rightarrow> jsobj \<Rightarrow> event \<Rightarrow> string" where
  "textFormatter h options msg =
     (if truthy (get_prop options ''includeLocationInformation'') then
        util_format h
          [JStr ''[%s] %s - %s - %s[%s@%s/%s(%d)]: %s'',
           JStr (level msg), JStr (timestamp msg), JStr (hostName msg), JStr (process_name msg),
           JStr (functionName msg), nullable_string (filePath msg), nullable_string (fileName msg),
           nullable_number (lineNumber msg),
           JStr (message msg)]
      else
        util_format h
          [JStr ''[%s] %s - %s - %s: %s'',
           JStr (level msg), JStr (timestamp msg), JStr (hostName msg),
           JStr (process_name msg), JStr (message msg)])"

fun apply_formatter :: "host \<Rightarrow> jsobj \<Rightarrow> formatter \<Rightarrow> event \<Rightarrow> string" where
  "apply_formatter h options JsonFormatter msg = jsonFormatter h msg"
| "apply_formatter h options TextFormatter msg = textFormatter h options msg"

text \<open>
  \<^verbatim>\<open>colors._colorize(msg, color)\<close>; the escape character is \<^verbatim>\<open>\u001b\<close>.
\<close>

definition colorize :: "host \<Rightarrow> string \<Rightarrow> string \<Rightarrow> string" where
  "colorize h msg color =
     [CHR 0x1B, CHR ''[''] @ show_int (fst (inspect_colors h color)) @ ''m'' @
     msg @
     [CHR 0x1B, CHR ''[''] @ show_int (snd (inspect_colors h color)) @ ''m''"

datatype color_function = DefaultTextColor | NamedColor string

fun apply_color :: "host \<Rightarrow> color_function \<Rightarrow> string \<Rightarrow> string" where
  "apply_color h DefaultTextColor msg = msg"
| "apply_color h (NamedColor key) msg = colorize h msg key"

fun logColors :: "log_level \<Rightarrow> color_function" where
  "logColors TRACE = NamedColor ''green''"
| "logColors DEBUG = DefaultTextColor"
| "logColors INFO = DefaultTextColor"
| "logColors WARN = NamedColor ''yellow''"
| "logColors ERROR = NamedColor ''red''"
| "logColors FATAL = NamedColor ''red''"

section \<open>The logger core\<close>

text \<open>
  The object literal of the deferred task, for a caller that is a frame:
  \<^verbatim>\<open>fn ? path.basename(fn) : fn\<close> keeps a falsy \<^verbatim>\<open>fn\<close> (\<^verbatim>\<open>null\<close>,
  \<^verbatim>\<open>undefined\<close> or the empty string) as it is, \<^verbatim>\<open>caller.getFunctionName() || "<anonymous>"\<close> replaces a falsy
  name.
\<close>

definition build_message :: "host \<Rightarrow> log_level \<Rightarrow> callsite \<Rightarrow> int \<Rightarrow> jsval list \<Rightarrow> event" where
  "build_message h lvl caller ts parameters =
     (let fn = getFileName caller in
      \<lparr>timestamp = toISOString h ts,
       level = level_name lvl,
       hostName = hostname h,
       process_name = applicationName h,
       process_pid = pid h,
       message = util_format h parameters,
       fileName = (if truthy (nullable_string fn) then map_nullable (basename h) fn else fn),
       filePath = (if truthy (nullable_string fn)
                   then map_nullable (\<lambda>f. relative h (cwd h) (dirname h f)) fn else fn),
       lineNumber = getLineNumber caller,
       functionName = (if truthy (nullable_string (getFunctionName caller))
                       then js_String h (nullable_string (getFunctionName caller))
                       else ''<anonymous>''),
       extra = []\<rparr>)"

text \<open>
  \<^verbatim>\<open>if (logOptions.enrich) { logOptions.enrich(message); }\<close>: calling a truthy value that
  is not a function throws, and so may the function; nothing catches either.
\<close>

definition enrich_message :: "host \<Rightarrow> jsobj \<Rightarrow> event \<Rightarrow> js_error + event" where
  "enrich_message h options msg =
     (if truthy (get_prop options ''enrich'') then
        (case get_prop options ''enrich'' of
           JFun f \<Rightarrow> call_function h f msg
         | _ \<Rightarrow> Inl TypeError)
      else Inr msg)"

text \<open>
  The body of the function given to \<^verbatim>\<open>setImmediate\<close>, up to the argument of
  \<^verbatim>\<open>stdout.write\<close>. \<^verbatim>\<open>caller.getFileName()\<close> is its first call: with no frame
  (\<^verbatim>\<open>null\<close> or \<^verbatim>\<open>undefined\<close>) it throws a \<^verbatim>\<open>TypeError\<close>.
\<close>

definition deferred ::
  "host \<Rightarrow> jsobj \<Rightarrow> log_level \<Rightarrow> callsite option \<Rightarrow> int \<Rightarrow> formatter \<Rightarrow> jsval list \<Rightarrow> js_error + string" where
  "deferred h options lvl trace ts format parameters =
     (case trace of
        None \<Rightarrow> Inl TypeError
      | Some caller \<Rightarrow>
          (case enrich_message h options (build_message h lvl caller ts parameters) of
             Inl e \<Rightarrow> Inl e
           | Inr msg \<Rightarrow>
               (let line = apply_formatter h options format msg @ [CHR 0x0A]
                in if truthy (get_prop options ''colorize'')
                   then Inr (apply_color h (logColors lvl) line)
                   else Inr line)))"

text \<open>
  The tasks the module gives to \<^verbatim>\<open>setImmediate\<close>: the closure of a logging call, with
  what it captured, and the closure of the uncaught-error handler. What a run of the
  process shows: a write to standard output, a signal sent to a process, an error that
  escaped a task. The run records them; what the signal or the escaped error then does to
  the process (Node hands an escaped error to the listeners of \<^verbatim>\<open>uncaughtException\<close>)
  is the host's part and is not followed here.
\<close>

datatype task = LogTask log_level "callsite option" int formatter "jsval list" | KillTask

datatype effect = Stdout string | Kill int string | Uncaught js_error

record state =
  logOptions :: jsobj
  currentFormatter :: "formatter option"
  cons :: console_state
  errorConfig :: error_config
  immediates :: "task list"
  effects :: "effect list"

text \<open>One call of a logging method: the runtime's answer to the resolver, the clock, the arguments.\<close>

record invocation =
  inv_probe :: stack_probe
  inv_now :: int
  inv_arguments :: "jsval list"

text \<open>The function object \<^verbatim>\<open>_log\<close> of a level, the boundary given to the resolver.\<close>

definition log_function :: "log_level \<Rightarrow> jsval" where
  "log_function lvl = JFun (length (takeWhile (\<lambda>l. l \<noteq> lvl) LOG_LEVELS))"

text \<open>
  \<^verbatim>\<open>karl[level.toLowerCase()] = function _log() { ... }\<close>: the synchronous part. It
  returns the state it leaves and the error that escaped, if any. \<^verbatim>\<open>setImmediate\<close>
  appends to the queue of immediate tasks.
\<close>

definition karl_log :: "log_level \<Rightarrow> invocation \<Rightarrow> state \<Rightarrow> state \<times> js_error option" where
  "karl_log lvl call s =
     (case (if truthy (get_prop (logOptions s) ''includeLocationInformation'')
            then getStackInfo (inv_probe call) (log_function lvl) (errorConfig s)
            else (errorConfig s, Inr (Some dummyTrace))) of
        (cfg, Inl e) \<Rightarrow> (s\<lparr>errorConfig := cfg\<rparr>, Some e)
      | (cfg, Inr trace) \<Rightarrow>
          (let ts = inv_now call;
               format = (case currentFormatter s of Some f \<Rightarrow> f | None \<Rightarrow> defaultFormatter);
               parameters = inv_arguments call
           in (s\<lparr>errorConfig := cfg,
                 immediates := immediates s @ [LogTask lvl trace ts format parameters]\<rparr>, None)))"


text \<open>
  The scheduler runs the immediate tasks in the order they were queued. A task of the
  logger queues no further task.
\<close>

fun run_task :: "host \<Rightarrow> task \<Rightarrow> state \<Rightarrow> state" where
  "run_task h (LogTask lvl trace ts format parameters) s =
     (case deferred h (logOptions s) lvl trace ts format parameters of
        Inl e \<Rightarrow> s\<lparr>effects := effects s @ [Uncaught e]\<rparr>
      | Inr msg \<Rightarrow> s\<lparr>effects := effects s @ [Stdout msg]\<rparr>)"
| "run_task h KillTask s = s\<lparr>effects := effects s @ [Kill (pid h) ''SIGINT'']\<rparr>"

definition run_immediates :: "host \<Rightarrow> state \<Rightarrow> state" where
  "run_immediates h s = fold (run_task h) (immediates s) (s\<lparr>immediates := []\<rparr>)"

section \<open>extend\<close>

text \<open>
  \<^verbatim>\<open>obj.hasOwnProperty(prop)\<close> as the source writes it: the method is looked up on
  the object itself. An object without an own property of that name gets the method of
  \<^verbatim>\<open>Object.prototype\<close>; an object that has one gets its own value called, a function
  of the caller's (whose result is read as a condition) or a value that cannot be called.
\<close>

definition call_has_own :: "host \<Rightarrow> jsobj \<Rightarrow> string \<Rightarrow> js_error + bool" where
  "call_has_own h obj prop =
     (if hasOwnProperty obj ''hasOwnProperty'' then
        (case get_prop obj ''hasOwnProperty'' of
           JFun f \<Rightarrow>
             (case call_hasOwnProperty h f obj prop of
                Inl e \<Rightarrow> Inl e
              | Inr v \<Rightarrow> Inr (truthy v))
         | _ \<Rightarrow> Inl TypeError)
      else Inr (hasOwnProperty obj prop))"

text \<open>
  \<^verbatim>\<open>extend(targetObject, ...sourceObjects)\<close>: the first loop copies the own properties
  of the first argument into a fresh object, the \<^verbatim>\<open>forEach\<close> then adds, source by
  source, the properties the target does not have yet. The first argument may be
  \<^verbatim>\<open>undefined\<close> (\<^verbatim>\<open>setOptions()\<close>): a \<^verbatim>\<open>for in\<close> over it runs no
  iteration. The loops run over the property names; an error thrown by a call of
  \<^verbatim>\<open>hasOwnProperty\<close> leaves \<^verbatim>\<open>extend\<close>.
\<close>

fun copy_own :: "host \<Rightarrow> jsobj \<Rightarrow> string list \<Rightarrow> jsobj \<Rightarrow> js_error + jsobj" where
  "copy_own h firstObject [] target = Inr target"
| "copy_own h firstObject (prop # props) target =
     (case call_has_own h firstObject prop of
        Inl e \<Rightarrow> Inl e
      | Inr own \<Rightarrow>
          copy_own h firstObject props
            (if own then set_prop target prop (get_prop firstObject prop) else target))"

fun mix_in :: "host \<Rightarrow> jsobj \<Rightarrow> string list \<Rightarrow> jsobj \<Rightarrow> js_error + jsobj" where
  "mix_in h source [] target = Inr target"
| "mix_in h source (prop # props) target =
     (case call_has_own h source prop of
        Inl e \<Rightarrow> Inl e
      | Inr own \<Rightarrow>
          (if own then
             (case call_has_own h target prop of
                Inl e \<Rightarrow> Inl e
              | Inr there \<Rightarrow>
                  mix_in h source props
                    (if \<not> there then set_prop target prop (get_prop source prop) else target))
           else mix_in h source props target))"

fun mix_all :: "host \<Rightarrow> jsobj list \<Rightarrow> jsobj \<Rightarrow> js_error + jsobj" where
  "mix_all h [] target = Inr target"
| "mix_all h (source # sources) target =
     (case mix_in h source (for_in source) target of
        Inl e \<Rightarrow> Inl e
      | Inr t \<Rightarrow> mix_all h sources t)"

definition extend :: "host \<Rightarrow> jsobj option \<Rightarrow> jsobj list \<Rightarrow> js_error + jsobj" where
  "extend h firstObject sources =
     (case (case firstObject of
              None \<Rightarrow> Inr []
            | Some fo \<Rightarrow> copy_own h fo (for_in fo) []) of
        Inl e \<Rightarrow> Inl e
      | Inr target \<Rightarrow> if length sources > 0 then mix_all h sources target else Inr target)"

section \<open>setOptions, the uncaught-error handler, the module\<close>

text \<open>
  \<^verbatim>\<open>setOptions(options)\<close>: when \<^verbatim>\<open>extend\<close> throws, the assignment to
  \<^verbatim>\<open>logOptions\<close> and the two statements after it are not reached.
\<close>

definition setOptions :: "host \<Rightarrow> jsobj option \<Rightarrow> state \<Rightarrow> state \<times> js_error option" where
  "setOptions h options s =
     (case extend h options [defaultLogOptions] of
        Inl e \<Rightarrow> (s, Some e)
      | Inr merged \<Rightarrow>
          (let s1 = s\<lparr>logOptions := merged\<rparr>;
               s2 = s1\<lparr>cons := redirectConsole (get_prop (logOptions s1) ''redirectConsole'') (cons s1)\<rparr>
           in (s2\<lparr>currentFormatter := Some (getFormatter (logOptions s2))\<rparr>, None)))"

text \<open>
  The listener of \<^verbatim>\<open>uncaughtException\<close>. \<open>err\<close> is the value that was thrown, as
  the object of its properties (\<open>None\<close>: \<^verbatim>\<open>null\<close> or \<^verbatim>\<open>undefined\<close>, whose
  \<^verbatim>\<open>stack\<close> cannot be read).
\<close>

definition on_uncaughtException ::
  "jsobj option \<Rightarrow> stack_probe \<Rightarrow> int \<Rightarrow> state \<Rightarrow> state \<times> js_error option" where
  "on_uncaughtException err pr ts s =
     (case err of
        None \<Rightarrow> (s, Some TypeError)
      | Some e \<Rightarrow>
          (case karl_log FATAL
                  \<lparr>inv_probe = pr, inv_now = ts,
                   inv_arguments = [JStr ''UncaughtException: '', get_prop e ''stack'']\<rparr> s of
             (s', Some x) \<Rightarrow> (s', Some x)
           | (s', None) \<Rightarrow> (s'\<lparr>immediates := immediates s' @ [KillTask]\<rparr>, None)))"

text \<open>The state the module leaves when it has been loaded.\<close>

definition module_load :: "(string \<Rightarrow> nat option) \<Rightarrow> error_config \<Rightarrow> state" where
  "module_load c0 cfg =
     \<lparr>logOptions = defaultLogOptions,
      currentFormatter = None,
      cons = load_console c0,
      errorConfig = cfg,
      immediates = [],
      effects = []\<rparr>"

text \<open>The states the module can be in: loaded, then used through what it exports.\<close>

inductive reachable :: "host \<Rightarrow> (string \<Rightarrow> nat option) \<Rightarrow> state \<Rightarrow> bool"
  for h :: host and c0 :: "string \<Rightarrow> nat option" where
  loaded: "reachable h c0 (module_load c0 cfg)"
| configured: "reachable h c0 s \<Longrightarrow> reachable h c0 (fst (setOptions h options s))"
| logged: "reachable h c0 s \<Longrightarrow> reachable h c0 (fst (karl_log lvl call s))"
| ran: "reachable h c0 s \<Longrightarrow> reachable h c0 (run_immediates h s)"
| caught: "reachable h c0 s \<Longrightarrow> reachable h c0 (fst (on_uncaughtException err pr ts s))"

section \<open>Notions used in the statements\<close>

text \<open>
  The interceptor decides between its two states by comparing \<^verbatim>\<open>console.log\<close> with
  the saved original: REDIRECTED when they differ, NATIVE when they are the same value.
\<close>

definition redirected :: "console_state \<Rightarrow> bool" where
  "redirected cs = (console cs ''log'' \<noteq> defaultConsole cs ''log'')"

text \<open>\<^verbatim>\<open>currentFormatter || defaultFormatter\<close>, the formatter a logging call captures.\<close>

definition chosen_format :: "state \<Rightarrow> formatter" where
  "chosen_format s = (case currentFormatter s of Some f \<Rightarrow> f | None \<Rightarrow> defaultFormatter)"


definition resolved_trace :: "jsobj \<Rightarrow> stack_probe \<Rightarrow> callsite option" where
  "resolved_trace options pr =
     (if truthy (get_prop options ''includeLocationInformation'')
      then (case pr of Frames (f # fs) \<Rightarrow> Some f | _ \<Rightarrow> None)
      else Some dummyTrace)"

text \<open>The task a call queues when its synchronous part returns.\<close>

definition queued :: "state \<Rightarrow> log_level \<times> invocation \<Rightarrow> task" where
  "queued s c =
     LogTask (fst c) (resolved_trace (logOptions s) (inv_probe (snd c))) (inv_now (snd c))
       (chosen_format s) (inv_arguments (snd c))"




text \<open>
  ``The four call-site fields are either all populated or all absent'': a field that holds
  \<^verbatim>\<open>null\<close> or \<^verbatim>\<open>undefined\<close> is absent; whether a function name counts as absent is the parameter (the
  field always holds a string: read literally no name is absent, read generously the
  sentinel is).
\<close>

definition location_all_or_none :: "(string \<Rightarrow> bool) \<Rightarrow> event \<Rightarrow> bool" where
  "location_all_or_none absent_name ev =
     ((has_value (fileName ev) \<and> has_value (filePath ev) \<and> has_value (lineNumber ev) \<and>
       \<not> absent_name (functionName ev)) \<or>
      (\<not> has_value (fileName ev) \<and> \<not> has_value (filePath ev) \<and> \<not> has_value (lineNumber ev) \<and>
       absent_name (functionName ev)))"

text \<open>
  What the interceptor keeps true: the saved originals are the ones taken when the module
  was loaded, and a console in the NATIVE state has \<^verbatim>\<open>debug\<close> bound to the saved
  \<^verbatim>\<open>debug\<close>.
\<close>

definition console_inv :: "(string \<Rightarrow> nat option) \<Rightarrow> console_state \<Rightarrow> bool" where
  "console_inv c0 cs =
     (defaultConsole cs = defaultConsole (save_console c0) \<and>
      (redirected cs \<or> console cs ''debug'' = defaultConsole cs ''debug''))"

section \<open>A host and inputs for the examples\<close>

text \<open>
  In the sample host, function 0 given as \<^verbatim>\<open>enrich\<close> returns leaving the event as it
  is, and any other function throws.
\<close>

definition sample_host :: host where
  "sample_host =
     \<lparr>hostname = ''box'', applicationName = ''app'', pid = 4242,
      toISOString = (\<lambda>ms. ''T'' @ show_int ms),
      basename = (\<lambda>p. rev (takeWhile (\<lambda>c. c \<noteq> CHR ''/'') (rev p))),
      dirname = (\<lambda>p. rev (drop 1 (dropWhile (\<lambda>c. c \<noteq> CHR ''/'') (rev p)))),
      relative = (\<lambda>a b. drop (Suc (length a)) b),
      cwd = ''/srv'',
      inspect_colors = (\<lambda>c. if c = ''green'' then (32, 39) else if c = ''yellow'' then (33, 39)
                              else if c = ''red'' then (31, 39) else (0, 0)),
      JSON_stringify = (\<lambda>e. ''{'' @ message e @ ''}''),
      call_function = (\<lambda>f e. if f = 0 then Inr e else Inl (Thrown ''enrich failed'')),
      call_hasOwnProperty = (\<lambda>f obj prop. Inr (JBool True)),
      inspect = (\<lambda>v. ''?''),
      json_of = (\<lambda>v. ''?''),
      number_of_string = (\<lambda>s. ''NaN''),
      function_source = (\<lambda>f. ''function''),
      other_placeholder = (\<lambda>c. None),
      exponent_form = (\<lambda>n. ''1e+21'')\<rparr>"

definition sample_console :: "string \<Rightarrow> nat option" where
  "sample_console =
     map_of [(''log'', 1), (''info'', 2), (''warn'', 3), (''error'', 4), (''trace'', 5), (''debug'', 6)]"

definition sample_config :: error_config where
  "sample_config = \<lparr>stackTraceLimit = JNum 10, prepareStackTrace = AmbientPrepare JUndefined\<rparr>"

definition sample_frame :: callsite where
  "sample_frame =
     \<lparr>getFileName = JsValue ''/srv/lib/main.js'', getLineNumber = JsValue 12,
      getFunctionName = JsValue ''start''\<rparr>"

text \<open>The frame of a function without a name, as of a callback written in place.\<close>

definition anonymous_frame :: callsite where
  "anonymous_frame =
     \<lparr>getFileName = JsValue ''/srv/lib/main.js'', getLineNumber = JsValue 3,
      getFunctionName = JsNull\<rparr>"


section \<open>Reconfiguration merges against the defaults\<close>

lemma map_of_set_prop: "map_of (set_prop obj k v) = (map_of obj)(k \<mapsto> v)"
  by (simp add: set_prop_def update_conv')

lemma hasOwnProperty_for_in: "hasOwnProperty obj k \<longleftrightarrow> k \<in> set (for_in obj)"
  by (simp add: hasOwnProperty_def for_in_def map_of_eq_None_iff)

lemma hasOwnProperty_set_prop:
  "hasOwnProperty (set_prop obj k v) k' \<longleftrightarrow> k' = k \<or> hasOwnProperty obj k'"
  by (simp add: hasOwnProperty_def map_of_set_prop)

text \<open>An object that does not carry a \<^verbatim>\<open>hasOwnProperty\<close> of its own gets the built-in one.\<close>

lemma call_has_own_builtin:
  "\<not> hasOwnProperty obj ''hasOwnProperty'' \<Longrightarrow> call_has_own h obj prop = Inr (hasOwnProperty obj prop)"
  by (simp add: call_has_own_def)

lemma copy_own_builtin:
  assumes "\<not> hasOwnProperty fo ''hasOwnProperty''"
  shows "\<exists>t'. copy_own h fo ks t = Inr t' \<and>
           (\<forall>k. map_of t' k =
              (if k \<in> set ks \<and> hasOwnProperty fo k then Some (get_prop fo k) else map_of t k))"
proof (induction ks arbitrary: t)
  case Nil
  then show ?case by simp
next
  case (Cons p ks)
  let ?t1 = "if hasOwnProperty fo p then set_prop t p (get_prop fo p) else t"
  obtain t' where t': "copy_own h fo ks ?t1 = Inr t'"
    and m: "\<forall>k. map_of t' k =
              (if k \<in> set ks \<and> hasOwnProperty fo k then Some (get_prop fo k) else map_of ?t1 k)"
    using Cons.IH[of ?t1] by blast
  have "copy_own h fo (p # ks) t = Inr t'"
    using t' assms by (simp add: call_has_own_builtin)
  moreover have "\<forall>k. map_of t' k =
      (if k \<in> set (p # ks) \<and> hasOwnProperty fo k then Some (get_prop fo k) else map_of t k)"
    using m by (auto simp: map_of_set_prop)
  ultimately show ?case by blast
qed

lemma mix_in_builtin:
  assumes "\<not> hasOwnProperty src ''hasOwnProperty''" "\<not> hasOwnProperty t ''hasOwnProperty''"
  shows "\<exists>t'. mix_in h src ks t = Inr t' \<and>
           (\<forall>k. map_of t' k =
              (case map_of t k of
                 Some v \<Rightarrow> Some v
               | None \<Rightarrow> if k \<in> set ks \<and> hasOwnProperty src k then Some (get_prop src k) else None))"
  using assms(2)
proof (induction ks arbitrary: t)
  case Nil
  then show ?case by (simp split: option.splits)
next
  case (Cons p ks)
  let ?t1 = "if hasOwnProperty src p \<and> \<not> hasOwnProperty t p
             then set_prop t p (get_prop src p) else t"
  have ne: "hasOwnProperty src p \<Longrightarrow> p \<noteq> ''hasOwnProperty''"
    using assms(1) by auto
  have t1: "\<not> hasOwnProperty ?t1 ''hasOwnProperty''"
    using Cons.prems ne by (auto simp: hasOwnProperty_set_prop)
  obtain t' where t': "mix_in h src ks ?t1 = Inr t'"
    and m: "\<forall>k. map_of t' k =
              (case map_of ?t1 k of
                 Some v \<Rightarrow> Some v
               | None \<Rightarrow> if k \<in> set ks \<and> hasOwnProperty src k then Some (get_prop src k) else None)"
    using Cons.IH[OF t1] by blast
  have "mix_in h src (p # ks) t = Inr t'"
    using t' assms(1) Cons.prems by (auto simp: call_has_own_builtin)
  moreover have "\<forall>k. map_of t' k =
      (case map_of t k of
         Some v \<Rightarrow> Some v
       | None \<Rightarrow> if k \<in> set (p # ks) \<and> hasOwnProperty src k then Some (get_prop src k) else None)"
    using m by (auto simp: map_of_set_prop hasOwnProperty_def split: option.splits)
  ultimately show ?case by blast
qed

lemma defaults_builtin: "\<not> hasOwnProperty defaultLogOptions ''hasOwnProperty''"
  by (simp add: defaultLogOptions_def hasOwnProperty_def)

text \<open>
  The merge for an options object without a \<^verbatim>\<open>hasOwnProperty\<close> of its own: it
  returns, with the object's own keys as given and every other key as in the defaults.
\<close>

lemma extend_builtin:
  assumes "\<not> hasOwnProperty options ''hasOwnProperty''"
  shows "\<exists>merged. extend h (Some options) [defaultLogOptions] = Inr merged \<and>
           (\<forall>k. get_prop merged k =
              (if hasOwnProperty options k then get_prop options k else get_prop defaultLogOptions k))"
proof -
  obtain t where t: "copy_own h options (for_in options) [] = Inr t"
    and mt: "\<forall>k. map_of t k =
               (if k \<in> set (for_in options) \<and> hasOwnProperty options k
                then Some (get_prop options k) else map_of [] k)"
    using copy_own_builtin[OF assms] by blast
  have tb: "\<not> hasOwnProperty t ''hasOwnProperty''"
    using mt assms by (simp add: hasOwnProperty_def)
  obtain m where m: "mix_in h defaultLogOptions (for_in defaultLogOptions) t = Inr m"
    and mm: "\<forall>k. map_of m k =
               (case map_of t k of
                  Some v \<Rightarrow> Some v
                | None \<Rightarrow> if k \<in> set (for_in defaultLogOptions) \<and> hasOwnProperty defaultLogOptions k
                          then Some (get_prop defaultLogOptions k) else None)"
    using mix_in_builtin[OF defaults_builtin tb] by blast
  have e: "extend h (Some options) [defaultLogOptions] = Inr m"
    using t m by (simp add: extend_def)
  have "get_prop m k =
          (if hasOwnProperty options k then get_prop options k else get_prop defaultLogOptions k)" for k
    using mt mm
    by (auto simp: get_prop_def hasOwnProperty_for_in[symmetric] hasOwnProperty_def split: option.splits)
  then show ?thesis
    using e by blast
qed

lemma extend_undefined:
  "\<exists>merged. extend h None [defaultLogOptions] = Inr merged \<and>
     (\<forall>k. get_prop merged k = get_prop defaultLogOptions k)"
proof -
  have tb: "\<not> hasOwnProperty [] ''hasOwnProperty''"
    by (simp add: hasOwnProperty_def)
  obtain m where m: "mix_in h defaultLogOptions (for_in defaultLogOptions) [] = Inr m"
    and mm: "\<forall>k. map_of m k =
               (case map_of [] k of
                  Some v \<Rightarrow> Some v
                | None \<Rightarrow> if k \<in> set (for_in defaultLogOptions) \<and> hasOwnProperty defaultLogOptions k
                          then Some (get_prop defaultLogOptions k) else None)"
    using mix_in_builtin[OF defaults_builtin tb] by blast
  have e: "extend h None [defaultLogOptions] = Inr m"
    using m by (simp add: extend_def)
  have "get_prop m k = get_prop defaultLogOptions k" for k
    using mm
    by (auto simp: get_prop_def hasOwnProperty_for_in[symmetric] hasOwnProperty_def split: option.splits)
  then show ?thesis
    using e by blast
qed

lemma setOptions_returns:
  assumes "extend h options [defaultLogOptions] = Inr merged"
  shows "snd (setOptions h options s) = None"
    and "logOptions (fst (setOptions h options s)) = merged"
    and "cons (fst (setOptions h options s)) =
           redirectConsole (get_prop merged ''redirectConsole'') (cons s)"
    and "currentFormatter (fst (setOptions h options s)) = Some (getFormatter merged)"
  using assms by (simp_all add: setOptions_def Let_def)

lemma setOptions_throws:
  assumes "extend h options [defaultLogOptions] = Inl e"
  shows "setOptions h options s = (s, Some e)"
  using assms by (simp add: setOptions_def)

lemma setOptions_builtin:
  assumes "\<not> hasOwnProperty options ''hasOwnProperty''"
  shows "snd (setOptions h (Some options) s) = None"
    and "get_prop (logOptions (fst (setOptions h (Some options) s))) k =
           (if hasOwnProperty options k then get_prop options k else get_prop defaultLogOptions k)"
    and "cons (fst (setOptions h (Some options) s)) =
           redirectConsole
             (if hasOwnProperty options ''redirectConsole'' then get_prop options ''redirectConsole''
              else get_prop defaultLogOptions ''redirectConsole'') (cons s)"
proof -
  obtain merged where e: "extend h (Some options) [defaultLogOptions] = Inr merged"
    and g: "\<forall>k. get_prop merged k =
              (if hasOwnProperty options k then get_prop options k else get_prop defaultLogOptions k)"
    using extend_builtin[OF assms] by blast
  show "snd (setOptions h (Some options) s) = None"
    using e by (rule setOptions_returns)
  show "get_prop (logOptions (fst (setOptions h (Some options) s))) k =
           (if hasOwnProperty options k then get_prop options k else get_prop defaultLogOptions k)"
    using g by (simp add: setOptions_returns(2)[OF e])
  show "cons (fst (setOptions h (Some options) s)) =
           redirectConsole
             (if hasOwnProperty options ''redirectConsole'' then get_prop options ''redirectConsole''
              else get_prop defaultLogOptions ''redirectConsole'') (cons s)"
    using g by (simp add: setOptions_returns(3)[OF e])
qed




section \<open>The console interceptor is a two-state toggle\<close>

lemma saved_log: "defaultConsole (save_console c0) ''log'' = ambient_binding (c0 ''log'')"
  by (simp add: save_console_def)

lemma saved_debug: "defaultConsole (save_console c0) ''debug'' = ambient_binding (c0 ''log'')"
  by (simp add: save_console_def)

lemma ambient_not_bound: "ambient_binding x \<noteq> KarlBound l n"
  by (cases x) simp_all

lemma defaultConsole_redirectConsole: "defaultConsole (redirectConsole e cs) = defaultConsole cs"
  by (simp add: redirectConsole_def bind_karl_def restore_binding_def)

lemma enable_log:
  "truthy e \<Longrightarrow> \<not> redirected cs \<Longrightarrow>
   console (redirectConsole e cs) ''log'' = KarlBound INFO (next_bound cs)"
  by (simp add: redirectConsole_def redirected_def bind_karl_def)

lemma enable_redirected_noop: "truthy e \<Longrightarrow> redirected cs \<Longrightarrow> redirectConsole e cs = cs"
  by (simp add: redirectConsole_def redirected_def)

lemma disable_native_noop: "\<not> truthy e \<Longrightarrow> \<not> redirected cs \<Longrightarrow> redirectConsole e cs = cs"
  by (simp add: redirectConsole_def redirected_def)

lemma disable_restores:
  "\<not> truthy e \<Longrightarrow> redirected cs \<Longrightarrow>
   console (redirectConsole e cs) ''log'' = defaultConsole cs ''log'' \<and>
   console (redirectConsole e cs) ''debug'' = defaultConsole cs ''debug''"
  by (simp add: redirectConsole_def redirected_def restore_binding_def)

text \<open>
  A function made by \<^verbatim>\<open>bind\<close> is never the saved original, so an enable leaves the
  console REDIRECTED whenever the saved \<^verbatim>\<open>log\<close> is a value from before the load.
\<close>

lemma redirected_after_enable:
  assumes "defaultConsole cs ''log'' = ambient_binding x" "truthy e"
  shows "redirected (redirectConsole e cs)"
proof (cases "redirected cs")
  case True
  then show ?thesis using assms by (simp add: enable_redirected_noop)
next
  case False
  then show ?thesis
    using assms ambient_not_bound[of x INFO "next_bound cs"]
    by (simp add: redirected_def[of "redirectConsole e cs"] enable_log defaultConsole_redirectConsole)
qed

lemma console_inv_redirected_after_enable:
  assumes "console_inv c0 cs" "truthy e"
  shows "redirected (redirectConsole e cs)"
  using assms by (simp add: console_inv_def saved_log redirected_after_enable)

lemma native_after_disable:
  assumes "\<not> truthy e"
  shows "\<not> redirected (redirectConsole e cs)"
proof (cases "redirected cs")
  case True
  then show ?thesis
    using assms disable_restores[of e cs]
    by (simp add: redirected_def[of "redirectConsole e cs"] defaultConsole_redirectConsole)
next
  case False
  then show ?thesis using assms by (simp add: disable_native_noop)
qed

lemma console_inv_redirectConsole:
  assumes "console_inv c0 cs"
  shows "console_inv c0 (redirectConsole e cs)"
proof (cases "truthy e")
  case True
  then show ?thesis
    using assms console_inv_redirected_after_enable[OF assms True]
    by (simp add: console_inv_def defaultConsole_redirectConsole)
next
  case False
  show ?thesis
  proof (cases "redirected cs")
    case True
    then show ?thesis
      using assms False disable_restores[of e cs]
      by (simp add: console_inv_def defaultConsole_redirectConsole)
  next
    case native: False
    then show ?thesis using assms False by (simp add: disable_native_noop)
  qed
qed

lemma redirected_load: "redirected (load_console c0)"
  by (simp add: load_console_def defaultLogOptions_def get_prop_def saved_log redirected_after_enable)

lemma console_inv_load: "console_inv c0 (load_console c0)"
  using redirected_load[of c0]
  by (simp add: console_inv_def load_console_def defaultConsole_redirectConsole)

text \<open>Only \<^verbatim>\<open>setOptions\<close> touches the console.\<close>

lemma cons_karl_log: "cons (fst (karl_log lvl call s)) = cons s"
  by (auto simp: karl_log_def Let_def split: prod.splits sum.splits)

lemma cons_run_task: "cons (run_task h t s) = cons s"
  by (cases t) (auto split: sum.splits)

lemma cons_fold_run_task: "cons (fold (run_task h) ts s) = cons s"
  by (induction ts arbitrary: s) (simp_all add: cons_run_task)

lemma cons_run_immediates: "cons (run_immediates h s) = cons s"
  by (simp add: run_immediates_def cons_fold_run_task)

lemma cons_on_uncaughtException: "cons (fst (on_uncaughtException err pr ts s)) = cons s"
proof (cases err)
  case None
  then show ?thesis by (simp add: on_uncaughtException_def)
next
  case (Some e)
  define call where
    "call = \<lparr>inv_probe = pr, inv_now = ts,
              inv_arguments = [JStr ''UncaughtException: '', get_prop e ''stack'']\<rparr>"
  have "cons (fst (karl_log FATAL call s)) = cons s"
    by (rule cons_karl_log)
  then show ?thesis
    using Some by (cases "karl_log FATAL call s")
      (auto simp: on_uncaughtException_def call_def split: option.splits)
qed

lemma cons_setOptions:
  "cons (fst (setOptions h options s)) =
     (case extend h options [defaultLogOptions] of
        Inl e \<Rightarrow> cons s
      | Inr merged \<Rightarrow> redirectConsole (get_prop merged ''redirectConsole'') (cons s))"
  by (simp add: setOptions_def Let_def split: sum.splits)

lemma reachable_console_inv: "reachable h c0 s \<Longrightarrow> console_inv c0 (cons s)"
proof (induction rule: reachable.induct)
  case (loaded cfg)
  then show ?case by (simp add: module_load_def console_inv_load)
next
  case (configured s options)
  then show ?case by (simp add: cons_setOptions console_inv_redirectConsole split: sum.splits)
next
  case (logged s lvl call)
  then show ?case by (simp add: cons_karl_log)
next
  case (ran s)
  then show ?case by (simp add: cons_run_immediates)
next
  case (caught s err pr ts)
  then show ?case by (simp add: cons_on_uncaughtException)
qed

lemma cons_redirectConsole_false:
  "cons (fst (setOptions h (Some [(''redirectConsole'', JBool False)]) s)) =
     redirectConsole (JBool False) (cons s)"
  by (simp add: setOptions_builtin hasOwnProperty_def) (simp add: get_prop_def)

text \<open>
  C4. In every state the module can reach, enable, enable, disable, disable leaves the
  console bindings (and the count of functions made by \<^verbatim>\<open>bind\<close>) exactly as enable,
  disable does; an enable in the REDIRECTED state and a disable in the NATIVE state change
  nothing at all, so no entry point is ever bound a second time over a redirected one.
\<close>

theorem console_toggle_idempotent:
  assumes "reachable h c0 s"
  shows "redirectConsole (JBool False) (redirectConsole (JBool False)
           (redirectConsole (JBool True) (redirectConsole (JBool True) (cons s))))
         = redirectConsole (JBool False) (redirectConsole (JBool True) (cons s))
       \<and> (redirected (cons s) \<longrightarrow> redirectConsole (JBool True) (cons s) = cons s)
       \<and> (\<not> redirected (cons s) \<longrightarrow> redirectConsole (JBool False) (cons s) = cons s)"
proof -
  have ci: "console_inv c0 (cons s)"
    using assms by (rule reachable_console_inv)
  have r: "redirected (redirectConsole (JBool True) (cons s))"
    using ci by (simp add: console_inv_redirected_after_enable)
  have n: "\<not> redirected (redirectConsole (JBool False) (redirectConsole (JBool True) (cons s)))"
    by (simp add: native_after_disable)
  show ?thesis
    using r n by (simp add: enable_redirected_noop disable_native_noop)
qed

text \<open>
  The module as loaded is REDIRECTED, and an enable there is a no-op; after
  \<^verbatim>\<open>setOptions({ redirectConsole: false })\<close> it is NATIVE, and a disable there is a
  no-op.
\<close>

theorem console_toggle_idempotent_witness:
  "reachable sample_host sample_console (module_load sample_console sample_config)
   \<and> redirected (cons (module_load sample_console sample_config))
   \<and> redirectConsole (JBool True) (cons (module_load sample_console sample_config))
       = cons (module_load sample_console sample_config)
   \<and> redirectConsole (JBool False) (redirectConsole (JBool False)
        (redirectConsole (JBool True) (redirectConsole (JBool True)
           (cons (module_load sample_console sample_config)))))
       = redirectConsole (JBool False) (redirectConsole (JBool True)
           (cons (module_load sample_console sample_config)))
   \<and> reachable sample_host sample_console
        (fst (setOptions sample_host (Some [(''redirectConsole'', JBool False)])
                (module_load sample_console sample_config)))
   \<and> \<not> redirected (cons (fst (setOptions sample_host (Some [(''redirectConsole'', JBool False)])
                             (module_load sample_console sample_config))))
   \<and> redirectConsole (JBool False)
        (cons (fst (setOptions sample_host (Some [(''redirectConsole'', JBool False)])
                 (module_load sample_console sample_config))))
       = cons (fst (setOptions sample_host (Some [(''redirectConsole'', JBool False)])
                 (module_load sample_console sample_config)))"
proof -
  let ?s0 = "module_load sample_console sample_config"
  let ?s1 = "fst (setOptions sample_host (Some [(''redirectConsole'', JBool False)]) ?s0)"
  have r0: "reachable sample_host sample_console ?s0"
    by (rule reachable.loaded)
  have r1: "reachable sample_host sample_console ?s1"
    using r0 by (rule reachable.configured)
  have red0: "redirected (cons ?s0)"
    by (simp add: module_load_def redirected_load)
  have nat1: "\<not> redirected (cons ?s1)"
    by (simp add: cons_redirectConsole_false native_after_disable)
  show ?thesis
    using r0 r1 red0 nat1 console_toggle_idempotent[OF r0] console_toggle_idempotent[OF r1]
    by blast
qed

text \<open>
  C10. The binding saved for \<^verbatim>\<open>debug\<close> is the \<^verbatim>\<open>console.log\<close> the module found
  when it was loaded, not the \<^verbatim>\<open>console.debug\<close> it found; in every state the module
  can reach, whatever enables and disables came before, \<^verbatim>\<open>console.debug\<close> is that
  original \<^verbatim>\<open>console.log\<close> after a disable.
\<close>

theorem debug_restored_to_original_log:
  assumes "reachable h c0 s"
  shows "defaultConsole (cons s) ''debug'' = ambient_binding (c0 ''log'')
       \<and> console (redirectConsole (JBool False) (cons s)) ''debug'' = ambient_binding (c0 ''log'')"
proof -
  have ci: "console_inv c0 (cons s)"
    using assms by (rule reachable_console_inv)
  then have d: "defaultConsole (cons s) ''debug'' = ambient_binding (c0 ''log'')"
    by (simp add: console_inv_def saved_debug)
  show ?thesis
  proof (cases "redirected (cons s)")
    case True
    then show ?thesis using d disable_restores[of "JBool False" "cons s"] by simp
  next
    case False
    then show ?thesis using d ci by (simp add: disable_native_noop console_inv_def)
  qed
qed

text \<open>
  With a console whose \<^verbatim>\<open>log\<close> is function 1 and whose \<^verbatim>\<open>debug\<close> is function 6,
  a disable leaves \<^verbatim>\<open>console.debug\<close> bound to function 1.
\<close>

theorem debug_restored_to_original_log_witness:
  "reachable sample_host sample_console (module_load sample_console sample_config)
   \<and> ambient_binding (sample_console ''debug'') = Ambient 6
   \<and> ambient_binding (sample_console ''log'') = Ambient 1
   \<and> defaultConsole (cons (module_load sample_console sample_config)) ''debug'' = Ambient 1
   \<and> console (redirectConsole (JBool False) (cons (module_load sample_console sample_config)))
        ''debug'' = Ambient 1"
proof -
  have r0: "reachable sample_host sample_console (module_load sample_console sample_config)"
    by (rule reachable.loaded)
  show ?thesis
    using r0 debug_restored_to_original_log[OF r0]
    by (simp add: sample_console_def)
qed

section \<open>The resolver and the stack-trace configuration\<close>

lemma getStackInfo_Frames:
  "getStackInfo (Frames fs) (JFun f) cfg = (cfg, Inr (case fs of [] \<Rightarrow> None | x # _ \<Rightarrow> Some x))"
  by (cases fs) (simp_all add: getStackInfo_def captureStackTrace_def read_stack_def Let_def)

text \<open>
  C2, as the code has it. Whenever \<^verbatim>\<open>getStackInfo\<close> returns, the stack-trace limit
  and the trace formatter are what they were before the call; with frames to read it does
  return, with the first frame or with none. There is no \<^verbatim>\<open>try\<close>/\<^verbatim>\<open>finally\<close>:
  when \<^verbatim>\<open>Error.captureStackTrace\<close> throws, the error leaves the function with the
  limit still 1, and when reading the stack throws, also with the capturing formatter
  still installed.
\<close>

theorem getStackInfo_restores_when_it_returns:
  "(\<forall>r. snd (getStackInfo probe limFn cfg) = Inr r \<longrightarrow> fst (getStackInfo probe limFn cfg) = cfg)
   \<and> getStackInfo (Frames fs) (JFun f) cfg = (cfg, Inr (case fs of [] \<Rightarrow> None | x # _ \<Rightarrow> Some x))
   \<and> getStackInfo (CaptureThrows e) (JFun f) cfg = (cfg\<lparr>stackTraceLimit := JNum 1\<rparr>, Inl e)
   \<and> getStackInfo (AccessThrows e) (JFun f) cfg =
       (cfg\<lparr>stackTraceLimit := JNum 1, prepareStackTrace := CapturePrepare\<rparr>, Inl e)"
proof -
  have "fst (getStackInfo probe limFn cfg) = cfg" if "snd (getStackInfo probe limFn cfg) = Inr r" for r
  proof (cases limFn)
    case (JFun g)
    then show ?thesis
      using that
      by (cases probe)
        (auto simp: getStackInfo_def captureStackTrace_def read_stack_def Let_def split: list.splits)
  qed (use that in \<open>simp_all add: getStackInfo_def\<close>)
  then show ?thesis
    by (simp add: getStackInfo_Frames)
      (simp add: getStackInfo_def captureStackTrace_def read_stack_def Let_def)
qed

theorem getStackInfo_restores_when_it_returns_witness:
  "snd (getStackInfo (Frames [sample_frame]) (log_function INFO) sample_config) = Inr (Some sample_frame)
   \<and> fst (getStackInfo (Frames [sample_frame]) (log_function INFO) sample_config) = sample_config"
proof -
  have a: "snd (getStackInfo (Frames [sample_frame]) (log_function INFO) sample_config)
             = Inr (Some sample_frame)"
    by (simp add: log_function_def getStackInfo_Frames)
  show ?thesis
    using a getStackInfo_restores_when_it_returns
      [of "Frames [sample_frame]" "log_function INFO" sample_config]
    by simp
qed

text \<open>
  The claim as the specification states it fails where the capture throws: the limit was
  10 before the call and is 1 after it.
\<close>

theorem getStackInfo_not_restored_when_capture_throws:
  "getStackInfo (CaptureThrows (Thrown ''RangeError'')) (log_function INFO) sample_config =
     (\<lparr>stackTraceLimit = JNum 1, prepareStackTrace = AmbientPrepare JUndefined\<rparr>,
      Inl (Thrown ''RangeError''))
   \<and> stackTraceLimit sample_config = JNum 10
   \<and> fst (getStackInfo (CaptureThrows (Thrown ''RangeError'')) (log_function INFO) sample_config)
       \<noteq> sample_config"
  by (simp add: getStackInfo_def captureStackTrace_def log_function_def sample_config_def LOG_LEVELS_def)

section \<open>Formatter selection and the text layout\<close>















section \<open>Colours\<close>

text \<open>
  C5, as the code has it. With \<^verbatim>\<open>colorize\<close> truthy, what a WARN task writes is the
  yellow start-escape, the formatted event, the newline and then the reset escape: the
  colour wraps the line together with its newline, so the reset escape comes after the
  newline and ends the output. What an INFO task writes is the formatted event and the
  newline, nothing added.
\<close>

theorem colorized_warn_and_info:
  assumes "truthy (get_prop options ''colorize'')"
  shows "(\<forall>ev. enrich_message h options (build_message h WARN caller ts ps) = Inr ev \<longrightarrow>
            deferred h options WARN (Some caller) ts fmt ps =
              Inr ([CHR 0x1B, CHR ''[''] @ show_int (fst (inspect_colors h ''yellow'')) @ ''m'' @
                   apply_formatter h options fmt ev @ [CHR 0x0A] @
                   [CHR 0x1B, CHR ''[''] @ show_int (snd (inspect_colors h ''yellow'')) @ ''m''))
       \<and> (\<forall>ev. enrich_message h options (build_message h INFO caller ts ps) = Inr ev \<longrightarrow>
            deferred h options INFO (Some caller) ts fmt ps =
              Inr (apply_formatter h options fmt ev @ [CHR 0x0A]))"
  using assms by (simp add: deferred_def colorize_def Let_def)

theorem colorized_warn_and_info_witness:
  "truthy (get_prop [(''colorize'', JBool True), (''includeLocationInformation'', JBool False),
                     (''json'', JBool False)] ''colorize'')
   \<and> deferred sample_host
        [(''colorize'', JBool True), (''includeLocationInformation'', JBool False), (''json'', JBool False)]
        WARN (Some dummyTrace) 7 TextFormatter [JStr ''low disk'']
       = Inr ([CHR 0x1B] @ ''[33m'' @ ''[WARN] T7 - box - app: low disk'' @ [CHR 0x0A] @
              [CHR 0x1B] @ ''[39m'')
   \<and> deferred sample_host
        [(''colorize'', JBool True), (''includeLocationInformation'', JBool False), (''json'', JBool False)]
        INFO (Some dummyTrace) 7 TextFormatter [JStr ''low disk'']
       = Inr (''[INFO] T7 - box - app: low disk'' @ [CHR 0x0A])"
proof -
  let ?o = "[(''colorize'', JBool True), (''includeLocationInformation'', JBool False),
             (''json'', JBool False)]"
  have c: "truthy (get_prop ?o ''colorize'')"
    by (simp add: get_prop_def)
  have ew: "enrich_message sample_host ?o (build_message sample_host WARN dummyTrace 7 [JStr ''low disk''])
              = Inr (build_message sample_host WARN dummyTrace 7 [JStr ''low disk''])"
    and ei: "enrich_message sample_host ?o (build_message sample_host INFO dummyTrace 7 [JStr ''low disk''])
              = Inr (build_message sample_host INFO dummyTrace 7 [JStr ''low disk''])"
    by (simp_all add: enrich_message_def get_prop_def)
  have fw: "apply_formatter sample_host ?o TextFormatter
              (build_message sample_host WARN dummyTrace 7 [JStr ''low disk''])
             = ''[WARN] T7 - box - app: low disk''"
    and fi: "apply_formatter sample_host ?o TextFormatter
              (build_message sample_host INFO dummyTrace 7 [JStr ''low disk''])
             = ''[INFO] T7 - box - app: low disk''"
    and y: "show_int (fst (inspect_colors sample_host ''yellow'')) = ''33''"
           "show_int (snd (inspect_colors sample_host ''yellow'')) = ''39''"
    by code_simp+
  from colorized_warn_and_info[OF c, of sample_host dummyTrace 7 "[JStr ''low disk'']" TextFormatter]
  show ?thesis
    using c ew ei fw fi y by simp
qed

text \<open>
  The claim as the specification states it fails on a coloured warning: the output ends
  with the \<^verbatim>\<open>m\<close> of the reset escape, the newline stands before the escape.
\<close>

theorem colorized_warn_ends_after_newline:
  "deferred sample_host
     [(''colorize'', JBool True), (''includeLocationInformation'', JBool False), (''json'', JBool False)]
     WARN (Some dummyTrace) 7 TextFormatter [JStr ''low disk'']
    = Inr ([CHR 0x1B] @ ''[33m[WARN] T7 - box - app: low disk'' @ [CHR 0x0A, CHR 0x1B] @ ''[39m'')
   \<and> last ([CHR 0x1B] @ ''[33m[WARN] T7 - box - app: low disk'' @ [CHR 0x0A, CHR 0x1B] @ ''[39m'')
       = CHR ''m''
   \<and> last ([CHR 0x1B] @ ''[33m[WARN] T7 - box - app: low disk'' @ [CHR 0x0A, CHR 0x1B] @ ''[39m'')
       \<noteq> CHR 0x0A"
  by code_simp

section \<open>The call-site fields of an event\<close>

text \<open>
  C6, as the code has it. In the event a deferred task builds (before an \<^verbatim>\<open>enrich\<close>
  callback sees it), \<^verbatim>\<open>fileName\<close> and
  \<^verbatim>\<open>filePath\<close> are \<^verbatim>\<open>null\<close> together, exactly when the frame reports
  \<^verbatim>\<open>null\<close> for its file name, and \<^verbatim>\<open>undefined\<close> together, exactly when it reports
  \<^verbatim>\<open>undefined\<close>;
  \<^verbatim>\<open>lineNumber\<close> is what the frame reports, whatever the other fields are;
  \<^verbatim>\<open>functionName\<close> is never \<^verbatim>\<open>null\<close> or empty: it is the frame's function name
  or, for want of one, \<^verbatim>\<open><anonymous>\<close>. With location capture off (the dummy trace) the
  first three are \<^verbatim>\<open>null\<close> and \<^verbatim>\<open>functionName\<close> is \<^verbatim>\<open><anonymous>\<close>.
\<close>

theorem location_fields_of_event:
  "(fileName (build_message h lvl caller ts ps) = JsNull \<longleftrightarrow> getFileName caller = JsNull)
   \<and> (filePath (build_message h lvl caller ts ps) = JsNull \<longleftrightarrow> getFileName caller = JsNull)
   \<and> (fileName (build_message h lvl caller ts ps) = JsUndefined \<longleftrightarrow>
        getFileName caller = JsUndefined)
   \<and> (filePath (build_message h lvl caller ts ps) = JsUndefined \<longleftrightarrow>
        getFileName caller = JsUndefined)
   \<and> lineNumber (build_message h lvl caller ts ps) = getLineNumber caller
   \<and> functionName (build_message h lvl caller ts ps) \<noteq> []
   \<and> functionName (build_message h lvl caller ts ps) =
       (case getFunctionName caller of
          JsValue n \<Rightarrow> if n = [] then ''<anonymous>'' else n
        | _ \<Rightarrow> ''<anonymous>'')
   \<and> fileName (build_message h lvl dummyTrace ts ps) = JsNull
   \<and> filePath (build_message h lvl dummyTrace ts ps) = JsNull
   \<and> lineNumber (build_message h lvl dummyTrace ts ps) = JsNull
   \<and> functionName (build_message h lvl dummyTrace ts ps) = ''<anonymous>''"
  by (cases "getFileName caller"; cases "getFunctionName caller")
    (simp_all add: build_message_def dummyTrace_def Let_def)

text \<open>
  The claim as the specification states it fails both ways it can be read. Read literally
  (a string is a populated field): with location capture off the event has a function name
  and no file name. Read generously (the sentinel counts as absent): a call from a function
  without a name has a file name and a line number and the sentinel for its name.
\<close>

theorem location_fields_partially_populated:
  "\<not> location_all_or_none (\<lambda>n. False) (build_message sample_host WARN dummyTrace 7 [JStr ''x''])
   \<and> \<not> location_all_or_none (\<lambda>n. n = ''<anonymous>'')
         (build_message sample_host WARN anonymous_frame 7 [JStr ''x''])"
  by code_simp

lemma deferred_no_frame: "deferred h options lvl None ts fmt ps = Inl TypeError"
  by (simp add: deferred_def)

text \<open>
  C7 at the input where the code fails it. Location capture is on (the default) and the
  runtime finds no frame above the logging method: the resolver returns no frame and
  restores the configuration, the call returns and queues its task with no frame, and the
  task throws a \<^verbatim>\<open>TypeError\<close> at \<^verbatim>\<open>caller.getFileName()\<close>: nothing is written. The
  same call with location capture off, where the dummy trace stands in, writes its line.
\<close>

theorem no_frame_call_writes_nothing:
  "getStackInfo (Frames []) (log_function INFO) sample_config = (sample_config, Inr None)
   \<and> snd (karl_log INFO \<lparr>inv_probe = Frames [], inv_now = 7, inv_arguments = [JStr ''x'']\<rparr>
             (module_load sample_console sample_config)) = None
   \<and> immediates (fst (karl_log INFO \<lparr>inv_probe = Frames [], inv_now = 7, inv_arguments = [JStr ''x'']\<rparr>
             (module_load sample_console sample_config)))
       = [LogTask INFO None 7 JsonFormatter [JStr ''x'']]
   \<and> effects (run_immediates sample_host
        (fst (karl_log INFO \<lparr>inv_probe = Frames [], inv_now = 7, inv_arguments = [JStr ''x'']\<rparr>
           (module_load sample_console sample_config)))) = [Uncaught TypeError]
   \<and> effects (run_immediates sample_host
        (fst (karl_log INFO \<lparr>inv_probe = Frames [], inv_now = 7, inv_arguments = [JStr ''x'']\<rparr>
           (fst (setOptions sample_host (Some [(''includeLocationInformation'', JBool False)])
              (module_load sample_console sample_config))))))
       = [Stdout (''{x}'' @ [CHR 0x0A])]"
  by code_simp

section \<open>Deferred writes keep the order of the calls\<close>





lemma queued_immediates [simp]: "queued (s\<lparr>immediates := q\<rparr>) c = queued s c"
  by (simp add: queued_def chosen_format_def)









section \<open>The uncaught-error handler\<close>






end
